theory Spec2Isabelle
  imports Complex_Main
begin

section \<open>JavaScript values\<close>

text \<open>
  The handler \<^verbatim>\<open>handleAnalyze\<close> of \<^verbatim>\<open>src/app/page.tsx\<close> reads the decoded agent response
  as an untyped JavaScript value. A number is an IEEE double: a finite value (both zeros
  are \<open>Finite 0\<close>), an infinity (a decoded literal that overflows) or NaN. The handler
  only ever tests a number for truthiness.
\<close>

datatype number = Finite rat | PosInfinity | NegInfinity | NaN

text \<open>
  An object is the list of its own properties; a read takes the first binding of a key.
  A decoded JSON object has each key once.
\<close>

datatype jsvalue =
    JUndefined
  | JNull
  | JBool bool
  | JNumber number
  | JString string
  | JArray "jsvalue list"
  | JObject "(string \<times> jsvalue) list"

text \<open>The values a JSON decoder produces: no \<open>undefined\<close> and no NaN, at any depth.\<close>

primrec isJSON :: "jsvalue \<Rightarrow> bool" where
  "isJSON JUndefined = False"
| "isJSON JNull = True"
| "isJSON (JBool b) = True"
| "isJSON (JNumber n) = (n \<noteq> NaN)"
| "isJSON (JString s) = True"
| "isJSON (JArray xs) = list_all id (map isJSON xs)"
| "isJSON (JObject kvs) = list_all snd (map (map_prod id isJSON) kvs)"

text \<open>Truthiness, as tested by \<^verbatim>\<open>if (x)\<close>, \<^verbatim>\<open>x || y\<close> and \<^verbatim>\<open>x && y\<close>.\<close>

fun truthy :: "jsvalue \<Rightarrow> bool" where
  "truthy JUndefined = False"
| "truthy JNull = False"
| "truthy (JBool b) = b"
| "truthy (JNumber n) = (n \<noteq> Finite 0 \<and> n \<noteq> NaN)"
| "truthy (JString s) = (s \<noteq> [])"
| "truthy (JArray xs) = True"
| "truthy (JObject kvs) = True"

definition nullish :: "jsvalue \<Rightarrow> bool" where
  "nullish x = (x = JUndefined \<or> x = JNull)"

fun isArray :: "jsvalue \<Rightarrow> bool" where
  "isArray (JArray xs) = True"
| "isArray x = False"

text \<open>
  Optional chaining \<^verbatim>\<open>x?.k\<close>. Every property name the handler reads is a plain data key
  (none is an index, \<^verbatim>\<open>length\<close> or another prototype property), so a read from a
  primitive or an array gives \<open>undefined\<close>, as does a read from \<open>null\<close> or \<open>undefined\<close>
  through \<^verbatim>\<open>?.\<close>.
\<close>

fun optChain :: "jsvalue \<Rightarrow> string \<Rightarrow> jsvalue" where
  "optChain (JObject kvs) k = (case map_of kvs k of Some v \<Rightarrow> v | None \<Rightarrow> JUndefined)"
| "optChain x k = JUndefined"

text \<open>The chain \<^verbatim>\<open>x?.k1?.k2?. ...\<close>, as the rendering code reads a result.\<close>

definition optPath :: "jsvalue \<Rightarrow> string list \<Rightarrow> jsvalue" where
  "optPath x ks = foldl optChain x ks"

text \<open>Plain member access \<^verbatim>\<open>x.k\<close> throws a TypeError on \<open>null\<close> and \<open>undefined\<close>.\<close>

datatype error = TypeError

definition member :: "jsvalue \<Rightarrow> string \<Rightarrow> error + jsvalue" where
  "member x k = (if nullish x then Inl TypeError else Inr (optChain x k))"

definition bind :: "error + 'a \<Rightarrow> ('a \<Rightarrow> error + 'b) \<Rightarrow> error + 'b" where
  "bind m f = (case m of Inl e \<Rightarrow> Inl e | Inr x \<Rightarrow> f x)"

text \<open>\<^verbatim>\<open>a || b\<close> and \<^verbatim>\<open>a && b\<close>: the right operand is evaluated only when needed.\<close>

definition orElse :: "jsvalue \<Rightarrow> error + jsvalue \<Rightarrow> error + jsvalue" where
  "orElse a b = (if truthy a then Inr a else b)"

definition andAlso :: "jsvalue \<Rightarrow> error + jsvalue \<Rightarrow> error + jsvalue" where
  "andAlso a b = (if truthy a then b else Inr a)"

section \<open>The mapping of the agent response\<close>

text \<open>The three paths of \<^verbatim>\<open>handleAnalyze\<close>, in the order they are tried.\<close>

datatype candidate = Canonical | Flattened | DoubleNested

text \<open>
  The fallback of Path 2 and Path 3 for \<^verbatim>\<open>metadata\<close>; \<open>now\<close> is the value of
  \<^verbatim>\<open>new Date().toISOString()\<close>.
\<close>

definition fallbackMetadata :: "string \<Rightarrow> jsvalue" where
  "fallbackMetadata now =
     JObject [(''agent_name'', JString ''Image Analyzer Agent''), (''timestamp'', JString now)]"

text \<open>The object literal of Path 2 (lines 240-263), its fields evaluated in source order.\<close>

definition mapFlattened :: "string \<Rightarrow> jsvalue \<Rightarrow> jsvalue \<Rightarrow> error + jsvalue" where
  "mapFlattened now normalized res =
     bind (bind (member normalized ''status'') (\<lambda>s. orElse s (Inr (JString ''success''))))
       (\<lambda>status.
     bind (bind (member res ''summary'') (\<lambda>s. orElse s
             (bind (member normalized ''message'') (\<lambda>m. orElse m
                (Inr (JString ''Image analysis completed''))))))
       (\<lambda>summary.
     bind (bind (member res ''scene_description'') (\<lambda>s. orElse s (Inr (JString ''''))))
       (\<lambda>scene_description.
     bind (bind (member res ''objects_detected'') (\<lambda>a.
             if isArray a then member res ''objects_detected'' else Inr (JArray [])))
       (\<lambda>objects_detected.
     bind (bind (member res ''text_extracted'') (\<lambda>s. orElse s (Inr (JString ''''))))
       (\<lambda>text_extracted.
     bind (bind (member res ''color_analysis'') (\<lambda>c.
             orElse (optChain c ''dominant_colors'') (Inr (JArray []))))
       (\<lambda>dominant_colors.
     bind (bind (member res ''mood_and_context'') (\<lambda>m.
             orElse (optChain m ''emotional_tone'') (Inr (JString ''''))))
       (\<lambda>emotional_tone.
     bind (bind (member res ''mood_and_context'') (\<lambda>m.
             if isArray (optChain m ''suggested_use_cases'')
             then bind (member res ''mood_and_context'') (\<lambda>m'. member m' ''suggested_use_cases'')
             else Inr (JArray [])))
       (\<lambda>suggested_use_cases.
     bind (bind (member normalized ''metadata'') (\<lambda>m. orElse m (Inr (fallbackMetadata now))))
       (\<lambda>metadata.
     Inr (JObject
       [(''status'', status),
        (''result'', JObject
          [(''summary'', summary),
           (''data'', JObject
             [(''scene_description'', scene_description),
              (''objects_detected'', objects_detected),
              (''text_extracted'', text_extracted),
              (''color_analysis'', JObject [(''dominant_colors'', dominant_colors)]),
              (''mood_and_context'', JObject
                [(''emotional_tone'', emotional_tone),
                 (''suggested_use_cases'', suggested_use_cases)])])]),
        (''metadata'', metadata)]))))))))))"

text \<open>The object literal of Path 3 (lines 267-274).\<close>

definition mapDoubleNested :: "string \<Rightarrow> jsvalue \<Rightarrow> jsvalue \<Rightarrow> error + jsvalue" where
  "mapDoubleNested now normalized res =
     bind (bind (member normalized ''status'') (\<lambda>s. orElse s (Inr (JString ''success''))))
       (\<lambda>status.
     bind (bind (member normalized ''metadata'') (\<lambda>m. orElse m (Inr (fallbackMetadata now))))
       (\<lambda>metadata.
     Inr (JObject [(''status'', status), (''result'', res), (''metadata'', metadata)])))"

text \<open>
  The condition of Path 2 (line 239):
  \<^verbatim>\<open>res.scene_description || res.objects_detected || res.color_analysis || res.mood_and_context\<close>.
\<close>

definition flattenedMarkers :: "jsvalue \<Rightarrow> error + jsvalue" where
  "flattenedMarkers res =
     bind (member res ''scene_description'') (\<lambda>a. orElse a
       (bind (member res ''objects_detected'') (\<lambda>b. orElse b
         (bind (member res ''color_analysis'') (\<lambda>c. orElse c
           (member res ''mood_and_context''))))))"

text \<open>
  Lines 225-276: the value of \<^verbatim>\<open>finalResult\<close> after the chain of paths (\<open>JNull\<close> when no
  path assigned it), together with the path that assigned it. \<open>Inl\<close> is a thrown error.
\<close>

definition mapResponse :: "string \<Rightarrow> jsvalue \<Rightarrow> error + (candidate option \<times> jsvalue)" where
  "mapResponse now normalized =
     bind (member normalized ''result'') (\<lambda>r.
       if truthy (optChain r ''data'') then Inr (Some Canonical, normalized)
       else bind (member normalized ''result'') (\<lambda>r'.
         if truthy r' then
           bind (member normalized ''result'') (\<lambda>res.
           bind (flattenedMarkers res) (\<lambda>c.
             if truthy c then
               bind (mapFlattened now normalized res) (\<lambda>v. Inr (Some Flattened, v))
             else
               bind (bind (member res ''summary'') (\<lambda>s. andAlso s (member res ''data''))) (\<lambda>d.
                 if truthy d then
                   bind (mapDoubleNested now normalized res) (\<lambda>v. Inr (Some DoubleNested, v))
                 else Inr (None, JNull))))
         else Inr (None, JNull)))"

text \<open>The path taken, without the mapped value.\<close>

definition selectedCandidate :: "string \<Rightarrow> jsvalue \<Rightarrow> error + candidate option" where
  "selectedCandidate now normalized =
     (case mapResponse now normalized of Inl e \<Rightarrow> Inl e | Inr p \<Rightarrow> Inr (fst p))"

section \<open>The handler's state\<close>

text \<open>
  The value \<^verbatim>\<open>callAIAgent\<close> resolves to: \<^verbatim>\<open>{ success, response, error? }\<close>.
\<close>

record agentResult =
  success :: bool
  response :: jsvalue
  agentError :: jsvalue

text \<open>
  The text shown as the error: a literal of the source, or the \<^verbatim>\<open>message\<close> of a caught
  error, whose wording is the runtime's.
\<close>

datatype errorText = Text string | MessageOf error | AgentText jsvalue

text \<open>
  \<^verbatim>\<open>rawResponse\<close> holds \<^verbatim>\<open>JSON.stringify(result, null, 2)\<close>; the serialiser is the runtime's,
  so the state records which value was serialised.
\<close>

datatype serialised = EmptyString | Stringify agentResult

record state =
  isAnalyzing :: bool
  analysisResult :: jsvalue
  error :: "errorText option"
  showDebug :: bool
  rawResponse :: serialised

text \<open>
  \<^verbatim>\<open>handleAnalyze\<close> from the point where \<^verbatim>\<open>callAIAgent\<close> has resolved to \<open>result\<close> (lines
  204-205 and 220-296; the upload before it is the collaborators' part). The \<^verbatim>\<open>catch\<close>
  block turns a thrown error into the error text, the \<^verbatim>\<open>finally\<close> block clears
  \<^verbatim>\<open>isAnalyzing\<close>.
\<close>

definition handleAnalyze :: "string \<Rightarrow> agentResult \<Rightarrow> state \<Rightarrow> state" where
  "handleAnalyze now result st =
     (let st1 = st\<lparr>isAnalyzing := True, error := None\<rparr>;
          st2 = st1\<lparr>rawResponse := Stringify result\<rparr>;
          st3 =
            (if success result then
               (case mapResponse now (response result) of
                  Inl e \<Rightarrow> st2\<lparr>error := Some (MessageOf e)\<rparr>
                | Inr (path, finalResult) \<Rightarrow>
                    if truthy finalResult then st2\<lparr>analysisResult := finalResult\<rparr>
                    else st2\<lparr>error := Some (Text
                           ''Could not parse agent response. Enable debug view to see raw response.''),
                         showDebug := True\<rparr>)
             else
               st2\<lparr>error := Some (if truthy (agentError result) then AgentText (agentError result)
                                  else Text ''Failed to analyze image''),
                   showDebug := True\<rparr>)
      in st3\<lparr>isAnalyzing := False\<rparr>)"

section \<open>The conditions of the paths, as pure reads\<close>

text \<open>The value of \<^verbatim>\<open>a || b\<close> and of \<^verbatim>\<open>a && b\<close> when evaluating \<open>b\<close> cannot throw.\<close>

definition orValue :: "jsvalue \<Rightarrow> jsvalue \<Rightarrow> jsvalue" where
  "orValue a b = (if truthy a then a else b)"

definition andValue :: "jsvalue \<Rightarrow> jsvalue \<Rightarrow> jsvalue" where
  "andValue a b = (if truthy a then b else a)"

text \<open>Line 231: \<^verbatim>\<open>normalized.result?.data\<close>.\<close>

definition canonicalPred :: "jsvalue \<Rightarrow> bool" where
  "canonicalPred normalized = truthy (optPath normalized [''result'', ''data''])"

text \<open>Lines 235 and 239: \<^verbatim>\<open>normalized.result\<close> and one of the four marker fields on it.\<close>

definition flattenedPred :: "jsvalue \<Rightarrow> bool" where
  "flattenedPred normalized =
     (truthy (optPath normalized [''result'']) \<and>
      (truthy (optPath normalized [''result'', ''scene_description'']) \<or>
       truthy (optPath normalized [''result'', ''objects_detected'']) \<or>
       truthy (optPath normalized [''result'', ''color_analysis'']) \<or>
       truthy (optPath normalized [''result'', ''mood_and_context''])))"

text \<open>Lines 235 and 266: \<^verbatim>\<open>normalized.result\<close> and \<^verbatim>\<open>res.summary && res.data\<close>.\<close>

definition doubleNestedPred :: "jsvalue \<Rightarrow> bool" where
  "doubleNestedPred normalized =
     (truthy (optPath normalized [''result'']) \<and>
      truthy (optPath normalized [''result'', ''summary'']) \<and>
      truthy (optPath normalized [''result'', ''data'']))"

text \<open>The literal of the no-match branch (line 284).\<close>

definition parseFailure :: errorText where
  "parseFailure = Text ''Could not parse agent response. Enable debug view to see raw response.''"

text \<open>The initial values of the state hooks (lines 90-97).\<close>

definition initialState :: state where
  "initialState =
     \<lparr>isAnalyzing = False, analysisResult = JNull, error = None, showDebug = False,
      rawResponse = EmptyString\<rparr>"

section \<open>Basic facts about reads\<close>

lemma bind_Inr [simp]: "bind (Inr x) f = f x"
  by (simp add: bind_def)

lemma bind_Inl [simp]: "bind (Inl e) f = Inl e"
  by (simp add: bind_def)

lemma truthy_not_nullish: "truthy x \<Longrightarrow> \<not> nullish x"
  by (cases x) (simp_all add: nullish_def)

lemma member_defined [simp]: "\<not> nullish x \<Longrightarrow> member x k = Inr (optChain x k)"
  by (simp add: member_def)

lemma member_nullish [simp]: "nullish x \<Longrightarrow> member x k = Inl TypeError"
  by (simp add: member_def)

lemma optChain_nullish: "nullish x \<Longrightarrow> optChain x k = JUndefined"
  by (auto simp: nullish_def)

lemma orElse_Inr [simp]: "orElse a (Inr b) = Inr (orValue a b)"
  by (simp add: orElse_def orValue_def)

lemma andAlso_Inr [simp]: "andAlso a (Inr b) = Inr (andValue a b)"
  by (simp add: andAlso_def andValue_def)

lemma truthy_orValue [simp]: "truthy (orValue a b) = (truthy a \<or> truthy b)"
  by (simp add: orValue_def)

lemma truthy_andValue [simp]: "truthy (andValue a b) = (truthy a \<and> truthy b)"
  by (simp add: andValue_def)

lemma if_Inr: "(if c then Inr a else Inr b) = Inr (if c then a else b)"
  by simp

lemma isArray_optChain_nullish: "isArray (optChain m k) \<Longrightarrow> nullish m = False"
  by (cases m) (simp_all add: nullish_def)

lemma optPath_Nil [simp]: "optPath x [] = x"
  by (simp add: optPath_def)

lemma optPath_Cons [simp]: "optPath x (k # ks) = optPath (optChain x k) ks"
  by (simp add: optPath_def)

section \<open>The flattened mapper in closed form\<close>

lemma mapFlattened_eq:
  assumes "\<not> nullish normalized" "\<not> nullish res"
  shows "mapFlattened now normalized res = Inr (JObject
       [(''status'', orValue (optChain normalized ''status'') (JString ''success'')),
        (''result'', JObject
          [(''summary'', orValue (optChain res ''summary'')
              (orValue (optChain normalized ''message'') (JString ''Image analysis completed''))),
           (''data'', JObject
             [(''scene_description'', orValue (optChain res ''scene_description'') (JString '''')),
              (''objects_detected'',
                 if isArray (optChain res ''objects_detected'') then optChain res ''objects_detected''
                 else JArray []),
              (''text_extracted'', orValue (optChain res ''text_extracted'') (JString '''')),
              (''color_analysis'', JObject [(''dominant_colors'',
                 orValue (optChain (optChain res ''color_analysis'') ''dominant_colors'') (JArray []))]),
              (''mood_and_context'', JObject
                [(''emotional_tone'',
                    orValue (optChain (optChain res ''mood_and_context'') ''emotional_tone'') (JString '''')),
                 (''suggested_use_cases'',
                    if isArray (optChain (optChain res ''mood_and_context'') ''suggested_use_cases'')
                    then optChain (optChain res ''mood_and_context'') ''suggested_use_cases''
                    else JArray [])])])]),
        (''metadata'', orValue (optChain normalized ''metadata'') (fallbackMetadata now))])"
  using assms
  by (simp add: mapFlattened_def if_Inr isArray_optChain_nullish cong: if_cong split del: if_split)

section \<open>The chain of paths, case by case\<close>

lemma flattenedMarkers_eq:
  assumes "\<not> nullish res"
  shows "flattenedMarkers res = Inr
     (orValue (optChain res ''scene_description'') (orValue (optChain res ''objects_detected'')
        (orValue (optChain res ''color_analysis'') (optChain res ''mood_and_context''))))"
  using assms by (simp add: flattenedMarkers_def)

lemma canonicalPred_truthy: "canonicalPred normalized \<Longrightarrow> truthy normalized"
  by (cases normalized) (simp_all add: canonicalPred_def)

lemma canonicalPred_not_nullish: "canonicalPred normalized \<Longrightarrow> \<not> nullish normalized"
  by (auto simp: canonicalPred_def nullish_def)

lemma flattenedPred_not_nullish: "flattenedPred normalized \<Longrightarrow> \<not> nullish normalized"
  by (auto simp: flattenedPred_def nullish_def)

lemma mapResponse_nullish: "nullish normalized \<Longrightarrow> mapResponse now normalized = Inl TypeError"
  by (simp add: mapResponse_def)

lemma mapResponse_canonical:
  assumes "canonicalPred normalized"
  shows "mapResponse now normalized = Inr (Some Canonical, normalized)"
  using assms canonicalPred_not_nullish [OF assms]
  by (simp add: mapResponse_def canonicalPred_def)

lemma mapResponse_flattened:
  assumes "\<not> canonicalPred normalized" "flattenedPred normalized"
  shows "mapResponse now normalized =
           bind (mapFlattened now normalized (optChain normalized ''result''))
             (\<lambda>v. Inr (Some Flattened, v))"
proof -
  from assms(2) have tr: "truthy (optChain normalized ''result'')"
    by (simp add: flattenedPred_def)
  then have nr: "\<not> nullish (optChain normalized ''result'')"
    by (rule truthy_not_nullish)
  from assms tr nr flattenedPred_not_nullish [OF assms(2)] show ?thesis
    by (simp add: mapResponse_def canonicalPred_def flattenedPred_def flattenedMarkers_eq)
qed

lemma mapResponse_no_match:
  assumes "\<not> nullish normalized" "\<not> canonicalPred normalized" "\<not> flattenedPred normalized"
  shows "mapResponse now normalized = Inr (None, JNull)"
proof (cases "truthy (optChain normalized ''result'')")
  case False
  with assms show ?thesis
    by (simp add: mapResponse_def canonicalPred_def)
next
  case True
  then have nr: "\<not> nullish (optChain normalized ''result'')"
    by (rule truthy_not_nullish)
  from assms True nr show ?thesis
    by (simp add: mapResponse_def canonicalPred_def flattenedPred_def flattenedMarkers_eq)
qed

lemma selectedCandidate_eq:
  assumes "\<not> nullish normalized"
  shows "selectedCandidate now normalized =
     Inr (if canonicalPred normalized then Some Canonical
          else if flattenedPred normalized then Some Flattened else None)"
proof (cases "canonicalPred normalized")
  case True
  then show ?thesis by (simp add: selectedCandidate_def mapResponse_canonical)
next
  case nc: False
  show ?thesis
  proof (cases "flattenedPred normalized")
    case True
    then have tr: "truthy (optChain normalized ''result'')"
      by (simp add: flattenedPred_def)
    then have nr: "\<not> nullish (optChain normalized ''result'')"
      by (rule truthy_not_nullish)
    from nc True show ?thesis
      by (simp add: selectedCandidate_def mapResponse_flattened mapFlattened_eq [OF assms nr])
  next
    case False
    with nc assms show ?thesis
      by (simp add: selectedCandidate_def mapResponse_no_match)
  qed
qed




text \<open>What the rendering code reads from the result of Path 2.\<close>

lemma flattened_output:
  assumes "\<not> canonicalPred normalized" "flattenedPred normalized"
  shows "\<exists>out. mapResponse now normalized = Inr (Some Flattened, out) \<and> truthy out \<and>
     optPath out [''status''] = orValue (optPath normalized [''status'']) (JString ''success'') \<and>
     optPath out [''result'', ''summary''] =
       orValue (optPath normalized [''result'', ''summary''])
         (orValue (optPath normalized [''message'']) (JString ''Image analysis completed'')) \<and>
     optPath out [''result'', ''data'', ''scene_description''] =
       orValue (optPath normalized [''result'', ''scene_description'']) (JString '''') \<and>
     optPath out [''result'', ''data'', ''objects_detected''] =
       (if isArray (optPath normalized [''result'', ''objects_detected''])
        then optPath normalized [''result'', ''objects_detected''] else JArray []) \<and>
     optPath out [''result'', ''data'', ''text_extracted''] =
       orValue (optPath normalized [''result'', ''text_extracted'']) (JString '''') \<and>
     optPath out [''result'', ''data'', ''color_analysis'', ''dominant_colors''] =
       orValue (optPath normalized [''result'', ''color_analysis'', ''dominant_colors'']) (JArray []) \<and>
     optPath out [''result'', ''data'', ''mood_and_context'', ''emotional_tone''] =
       orValue (optPath normalized [''result'', ''mood_and_context'', ''emotional_tone''])
         (JString '''') \<and>
     optPath out [''result'', ''data'', ''mood_and_context'', ''suggested_use_cases''] =
       (if isArray (optPath normalized [''result'', ''mood_and_context'', ''suggested_use_cases''])
        then optPath normalized [''result'', ''mood_and_context'', ''suggested_use_cases'']
        else JArray []) \<and>
     optPath out [''metadata''] =
       orValue (optPath normalized [''metadata'']) (fallbackMetadata now)"
proof -
  from assms(2) have tr: "truthy (optChain normalized ''result'')"
    by (simp add: flattenedPred_def)
  then have nr: "\<not> nullish (optChain normalized ''result'')"
    by (rule truthy_not_nullish)
  have nn: "\<not> nullish normalized"
    using assms(2) by (rule flattenedPred_not_nullish)
  show ?thesis
    unfolding mapResponse_flattened [OF assms] mapFlattened_eq [OF nn nr]
    by simp
qed

section \<open>A falsy field reads like an absent one\<close>

lemma map_of_filter_key:
  "map_of (filter (\<lambda>p. fst p \<noteq> k) kvs) k' = (if k' = k then None else map_of kvs k')"
  by (induction kvs) auto

lemma truthy_drop_falsy:
  assumes "map_of kvs k = Some v" "\<not> truthy v"
  shows "truthy (optChain (JObject (filter (\<lambda>p. fst p \<noteq> k) kvs)) k') =
         truthy (optChain (JObject kvs) k')"
  using assms by (simp add: map_of_filter_key)

lemma preds_drop_falsy:
  assumes "map_of kvs k = Some v" "\<not> truthy v"
  shows "canonicalPred (JObject ((''result'', JObject (filter (\<lambda>p. fst p \<noteq> k) kvs)) # others)) =
           canonicalPred (JObject ((''result'', JObject kvs) # others))"
    and "flattenedPred (JObject ((''result'', JObject (filter (\<lambda>p. fst p \<noteq> k) kvs)) # others)) =
           flattenedPred (JObject ((''result'', JObject kvs) # others))"
  using truthy_drop_falsy [OF assms]
  by (simp_all add: canonicalPred_def flattenedPred_def)

section \<open>The handler after the mapping\<close>

lemma handleAnalyze_mapped:
  assumes "success result" "mapResponse now (response result) = Inr (c, v)" "truthy v"
  shows "handleAnalyze now result st =
           st\<lparr>isAnalyzing := False, error := None, rawResponse := Stringify result,
              analysisResult := v\<rparr>"
  using assms by (simp add: handleAnalyze_def)

lemma handleAnalyze_no_match:
  assumes "success result" "mapResponse now (response result) = Inr (None, JNull)"
  shows "handleAnalyze now result st =
           st\<lparr>isAnalyzing := False, error := Some parseFailure, rawResponse := Stringify result,
              showDebug := True\<rparr>"
  using assms by (simp add: handleAnalyze_def parseFailure_def)

lemma handleAnalyze_thrown:
  assumes "success result" "mapResponse now (response result) = Inl e"
  shows "handleAnalyze now result st =
           st\<lparr>isAnalyzing := False, error := Some (MessageOf e), rawResponse := Stringify result\<rparr>"
  using assms by (simp add: handleAnalyze_def)

section \<open>The claims\<close>

subsection \<open>C1: the mapping returns for every decoded value but null\<close>

text \<open>
  C1, as amended. For every decoded JSON value other than \<open>null\<close> that the agent call
  delivers with \<open>success\<close>, the mapping block returns without throwing: either it assigns a
  truthy \<open>finalResult\<close>, which the handler stores as the analysis result with no error, or
  it assigns none, and the handler reports the parse failure.
\<close>

theorem mapResponse_returns_unless_null:
  assumes "success result" "isJSON (response result)" "response result \<noteq> JNull"
  shows "(\<exists>c v. mapResponse now (response result) = Inr (Some c, v) \<and> truthy v \<and>
            analysisResult (handleAnalyze now result st) = v \<and>
            error (handleAnalyze now result st) = None) \<or>
         (mapResponse now (response result) = Inr (None, JNull) \<and>
            error (handleAnalyze now result st) = Some parseFailure)"
proof -
  let ?n = "response result"
  from assms(2,3) have nn: "\<not> nullish ?n"
    by (auto simp: nullish_def)
  show ?thesis
  proof (cases "canonicalPred ?n")
    case True
    then have m: "mapResponse now ?n = Inr (Some Canonical, ?n)"
      by (rule mapResponse_canonical)
    have t: "truthy ?n" using True by (rule canonicalPred_truthy)
    show ?thesis
      using m t by (simp add: handleAnalyze_mapped [OF assms(1) m t])
  next
    case nc: False
    show ?thesis
    proof (cases "flattenedPred ?n")
      case True
      from flattened_output [OF nc True, of now] obtain out
        where m: "mapResponse now ?n = Inr (Some Flattened, out)" and t: "truthy out"
        by blast
      show ?thesis
        using m t by (simp add: handleAnalyze_mapped [OF assms(1) m t])
    next
      case False
      have m: "mapResponse now ?n = Inr (None, JNull)"
        using nn nc False by (rule mapResponse_no_match)
      show ?thesis
        using m by (simp add: handleAnalyze_no_match [OF assms(1) m])
    qed
  qed
qed

text \<open>The amended C1 at the payload \<^verbatim>\<open>{foo: "bar"}\<close>, which no path maps.\<close>

theorem mapResponse_returns_unless_null_witness:
  "success \<lparr>success = True, response = JObject [(''foo'', JString ''bar'')], agentError = JUndefined\<rparr> \<and>
   isJSON (JObject [(''foo'', JString ''bar'')]) \<and>
   JObject [(''foo'', JString ''bar'')] \<noteq> JNull \<and>
   mapResponse ''2024-01-01T00:00:00.000Z'' (JObject [(''foo'', JString ''bar'')]) = Inr (None, JNull) \<and>
   error (handleAnalyze ''2024-01-01T00:00:00.000Z''
     \<lparr>success = True, response = JObject [(''foo'', JString ''bar'')], agentError = JUndefined\<rparr>
     initialState) = Some parseFailure"
proof -
  let ?r = "\<lparr>success = True, response = JObject [(''foo'', JString ''bar'')], agentError = JUndefined\<rparr>"
  have h1: "success ?r" by simp
  have h2: "isJSON (response ?r)" by simp
  have h3: "response ?r \<noteq> JNull" by simp
  have m: "mapResponse ''2024-01-01T00:00:00.000Z'' (response ?r) = Inr (None, JNull)"
    by (rule mapResponse_no_match) (simp_all add: nullish_def canonicalPred_def flattenedPred_def)
  show ?thesis
    using mapResponse_returns_unless_null [OF h1 h2 h3, of "''2024-01-01T00:00:00.000Z''" initialState] m
    by simp
qed

text \<open>
  C1 as stated fails at \<open>null\<close>: reading \<^verbatim>\<open>normalized.result\<close> (line 231) throws a
  TypeError, which only the \<^verbatim>\<open>catch\<close> block of the handler turns into an error text, the
  message of the exception, with the debug view left off.
\<close>

theorem mapResponse_null_throws:
  "isJSON JNull \<and> mapResponse ''2024-01-01T00:00:00.000Z'' JNull = Inl TypeError \<and>
   error (handleAnalyze ''2024-01-01T00:00:00.000Z''
     \<lparr>success = True, response = JNull, agentError = JUndefined\<rparr> initialState)
     = Some (MessageOf TypeError) \<and>
   showDebug (handleAnalyze ''2024-01-01T00:00:00.000Z''
     \<lparr>success = True, response = JNull, agentError = JUndefined\<rparr> initialState) = False"
proof -
  have m: "mapResponse ''2024-01-01T00:00:00.000Z'' JNull = Inl TypeError"
    by (simp add: mapResponse_nullish nullish_def)
  then show ?thesis
    by (simp add: handleAnalyze_thrown initialState_def)
qed

subsection \<open>C2: the array fields of a result\<close>

text \<open>
  C2, as amended. When the flattened path builds the result, \<^verbatim>\<open>objects_detected\<close> and
  \<^verbatim>\<open>suggested_use_cases\<close> of the result are arrays (possibly empty), and
  \<^verbatim>\<open>dominant_colors\<close> of the result is an array whenever the payload's
  \<^verbatim>\<open>color_analysis.dominant_colors\<close> is an array or is not truthy (absent, null and the
  like).
\<close>

theorem flattened_arrays:
  assumes "\<not> canonicalPred normalized" "flattenedPred normalized"
  shows "\<exists>out. mapResponse now normalized = Inr (Some Flattened, out) \<and>
     isArray (optPath out [''result'', ''data'', ''objects_detected'']) \<and>
     isArray (optPath out [''result'', ''data'', ''mood_and_context'', ''suggested_use_cases'']) \<and>
     (isArray (optPath normalized [''result'', ''color_analysis'', ''dominant_colors'']) \<or>
      \<not> truthy (optPath normalized [''result'', ''color_analysis'', ''dominant_colors'']) \<longrightarrow>
        isArray (optPath out [''result'', ''data'', ''color_analysis'', ''dominant_colors'']))"
proof -
  from flattened_output [OF assms, of now] obtain out where
    m: "mapResponse now normalized = Inr (Some Flattened, out)" and
    od: "optPath out [''result'', ''data'', ''objects_detected''] =
       (if isArray (optPath normalized [''result'', ''objects_detected''])
        then optPath normalized [''result'', ''objects_detected''] else JArray [])" and
    dc: "optPath out [''result'', ''data'', ''color_analysis'', ''dominant_colors''] =
       orValue (optPath normalized [''result'', ''color_analysis'', ''dominant_colors'']) (JArray [])" and
    su: "optPath out [''result'', ''data'', ''mood_and_context'', ''suggested_use_cases''] =
       (if isArray (optPath normalized [''result'', ''mood_and_context'', ''suggested_use_cases''])
        then optPath normalized [''result'', ''mood_and_context'', ''suggested_use_cases'']
        else JArray [])"
    by blast
  have a1: "isArray (optPath out [''result'', ''data'', ''objects_detected''])"
    unfolding od by simp
  have a2: "isArray (optPath out [''result'', ''data'', ''mood_and_context'', ''suggested_use_cases''])"
    unfolding su by simp
  have a3: "isArray (optPath out [''result'', ''data'', ''color_analysis'', ''dominant_colors''])"
    if "isArray (optPath normalized [''result'', ''color_analysis'', ''dominant_colors'']) \<or>
      \<not> truthy (optPath normalized [''result'', ''color_analysis'', ''dominant_colors''])"
    unfolding dc using that by (auto simp: orValue_def)
  from m a1 a2 a3 show ?thesis by blast
qed

text \<open>
  The amended C2 at a payload with one detected object directly on \<^verbatim>\<open>result\<close> and no
  \<^verbatim>\<open>color_analysis\<close>.
\<close>

theorem flattened_arrays_witness:
  "\<not> canonicalPred (JObject [(''result'', JObject [(''objects_detected'',
        JArray [JObject [(''object'', JString ''cat''), (''confidence'', JString ''90%'')]])])]) \<and>
   flattenedPred (JObject [(''result'', JObject [(''objects_detected'',
        JArray [JObject [(''object'', JString ''cat''), (''confidence'', JString ''90%'')]])])]) \<and>
   \<not> truthy (optPath (JObject [(''result'', JObject [(''objects_detected'',
        JArray [JObject [(''object'', JString ''cat''), (''confidence'', JString ''90%'')]])])])
      [''result'', ''color_analysis'', ''dominant_colors'']) \<and>
   (\<exists>out. mapResponse ''2024-01-01T00:00:00.000Z''
       (JObject [(''result'', JObject [(''objects_detected'',
        JArray [JObject [(''object'', JString ''cat''), (''confidence'', JString ''90%'')]])])])
       = Inr (Some Flattened, out) \<and>
     isArray (optPath out [''result'', ''data'', ''objects_detected'']) \<and>
     isArray (optPath out [''result'', ''data'', ''mood_and_context'', ''suggested_use_cases'']) \<and>
     isArray (optPath out [''result'', ''data'', ''color_analysis'', ''dominant_colors'']))"
proof -
  let ?n = "JObject [(''result'', JObject [(''objects_detected'',
        JArray [JObject [(''object'', JString ''cat''), (''confidence'', JString ''90%'')]])])]"
  have h1: "\<not> canonicalPred ?n" by (simp add: canonicalPred_def)
  have h2: "flattenedPred ?n" by (simp add: flattenedPred_def)
  have h3: "\<not> truthy (optPath ?n [''result'', ''color_analysis'', ''dominant_colors''])" by simp
  show ?thesis
    using flattened_arrays [OF h1 h2, of "''2024-01-01T00:00:00.000Z''"] h1 h2 h3
    by auto
qed

text \<open>
  C2 as stated fails on both paths. The canonical path hands the payload on as it is: for
  \<^verbatim>\<open>{result: {data: {}}}\<close> the three fields of the result are absent. On the flattened
  path line 249 defaults \<^verbatim>\<open>dominant_colors\<close> with \<^verbatim>\<open>|| []\<close>, where lines 246 and 253 test
  \<^verbatim>\<open>Array.isArray\<close>: for \<^verbatim>\<open>{result: {color_analysis: {dominant_colors: "red"}}}\<close> the
  field of the result is the string.
\<close>

theorem arrays_not_guaranteed:
  "mapResponse ''2024-01-01T00:00:00.000Z'' (JObject [(''result'', JObject [(''data'', JObject [])])])
     = Inr (Some Canonical, JObject [(''result'', JObject [(''data'', JObject [])])]) \<and>
   optPath (JObject [(''result'', JObject [(''data'', JObject [])])])
     [''result'', ''data'', ''objects_detected''] = JUndefined \<and>
   optPath (JObject [(''result'', JObject [(''data'', JObject [])])])
     [''result'', ''data'', ''color_analysis'', ''dominant_colors''] = JUndefined \<and>
   optPath (JObject [(''result'', JObject [(''data'', JObject [])])])
     [''result'', ''data'', ''mood_and_context'', ''suggested_use_cases''] = JUndefined \<and>
   mapResponse ''2024-01-01T00:00:00.000Z''
     (JObject [(''result'', JObject
        [(''color_analysis'', JObject [(''dominant_colors'', JString ''red'')])])]) =
   Inr (Some Flattened, JObject
     [(''status'', JString ''success''),
      (''result'', JObject
        [(''summary'', JString ''Image analysis completed''),
         (''data'', JObject
           [(''scene_description'', JString ''''),
            (''objects_detected'', JArray []),
            (''text_extracted'', JString ''''),
            (''color_analysis'', JObject [(''dominant_colors'', JString ''red'')]),
            (''mood_and_context'', JObject
              [(''emotional_tone'', JString ''''), (''suggested_use_cases'', JArray [])])])]),
      (''metadata'', JObject
        [(''agent_name'', JString ''Image Analyzer Agent''),
         (''timestamp'', JString ''2024-01-01T00:00:00.000Z'')])]) \<and>
   \<not> isArray (JString ''red'')"
proof -
  let ?p = "JObject [(''result'', JObject [(''data'', JObject [])])]"
  let ?q = "JObject [(''result'', JObject
        [(''color_analysis'', JObject [(''dominant_colors'', JString ''red'')])])]"
  have c: "canonicalPred ?p" by (simp add: canonicalPred_def)
  have q1: "\<not> canonicalPred ?q" by (simp add: canonicalPred_def)
  have q2: "flattenedPred ?q" by (simp add: flattenedPred_def)
  have q3: "\<not> nullish ?q" by (simp add: nullish_def)
  have q4: "\<not> nullish (optChain ?q ''result'')" by (simp add: nullish_def)
  have flat: "mapResponse ''2024-01-01T00:00:00.000Z'' ?q = Inr (Some Flattened, JObject
     [(''status'', JString ''success''),
      (''result'', JObject
        [(''summary'', JString ''Image analysis completed''),
         (''data'', JObject
           [(''scene_description'', JString ''''),
            (''objects_detected'', JArray []),
            (''text_extracted'', JString ''''),
            (''color_analysis'', JObject [(''dominant_colors'', JString ''red'')]),
            (''mood_and_context'', JObject
              [(''emotional_tone'', JString ''''), (''suggested_use_cases'', JArray [])])])]),
      (''metadata'', JObject
        [(''agent_name'', JString ''Image Analyzer Agent''),
         (''timestamp'', JString ''2024-01-01T00:00:00.000Z'')])])"
    unfolding mapResponse_flattened [OF q1 q2] mapFlattened_eq [OF q3 q4]
    by (simp add: orValue_def fallbackMetadata_def)
  from c flat show ?thesis
    by (simp add: mapResponse_canonical)
qed

subsection \<open>C3: the canonical path does not coerce\<close>

text \<open>
  C3, as amended. Whenever the canonical path is taken (\<^verbatim>\<open>result.data\<close> is truthy), the
  result is the payload itself, unchanged, and the handler stores it as the analysis
  result with no error.
\<close>

theorem canonical_verbatim:
  assumes "success result" "canonicalPred (response result)"
  shows "mapResponse now (response result) = Inr (Some Canonical, response result) \<and>
         analysisResult (handleAnalyze now result st) = response result \<and>
         error (handleAnalyze now result st) = None"
proof -
  have m: "mapResponse now (response result) = Inr (Some Canonical, response result)"
    using assms(2) by (rule mapResponse_canonical)
  have t: "truthy (response result)"
    using assms(2) by (rule canonicalPred_truthy)
  show ?thesis
    using m by (simp add: handleAnalyze_mapped [OF assms(1) m t])
qed

text \<open>The amended C3 at \<^verbatim>\<open>{result: {data: {}}}\<close>.\<close>

theorem canonical_verbatim_witness:
  "success \<lparr>success = True, response = JObject [(''result'', JObject [(''data'', JObject [])])],
            agentError = JUndefined\<rparr> \<and>
   canonicalPred (JObject [(''result'', JObject [(''data'', JObject [])])]) \<and>
   analysisResult (handleAnalyze ''2024-01-01T00:00:00.000Z''
      \<lparr>success = True, response = JObject [(''result'', JObject [(''data'', JObject [])])],
       agentError = JUndefined\<rparr> initialState)
     = JObject [(''result'', JObject [(''data'', JObject [])])]"
proof -
  let ?r = "\<lparr>success = True, response = JObject [(''result'', JObject [(''data'', JObject [])])],
            agentError = JUndefined\<rparr>"
  have h1: "success ?r" by simp
  have h2: "canonicalPred (response ?r)" by (simp add: canonicalPred_def)
  show ?thesis
    using canonical_verbatim [OF h1 h2, of "''2024-01-01T00:00:00.000Z''" initialState] h2
    by simp
qed

text \<open>
  C3 as stated fails at \<^verbatim>\<open>{result: {data: {}}}\<close>: the result is the payload, whose string
  fields are absent rather than empty strings and whose array field is absent rather than
  the empty array.
\<close>

theorem canonical_not_coerced:
  "mapResponse ''2024-01-01T00:00:00.000Z'' (JObject [(''result'', JObject [(''data'', JObject [])])])
     = Inr (Some Canonical, JObject [(''result'', JObject [(''data'', JObject [])])]) \<and>
   optPath (JObject [(''result'', JObject [(''data'', JObject [])])])
     [''result'', ''data'', ''scene_description''] \<noteq> JString '''' \<and>
   optPath (JObject [(''result'', JObject [(''data'', JObject [])])])
     [''result'', ''data'', ''text_extracted''] \<noteq> JString '''' \<and>
   optPath (JObject [(''result'', JObject [(''data'', JObject [])])])
     [''result'', ''data'', ''objects_detected''] \<noteq> JArray []"
proof -
  have "canonicalPred (JObject [(''result'', JObject [(''data'', JObject [])])])"
    by (simp add: canonicalPred_def)
  then show ?thesis
    by (simp add: mapResponse_canonical)
qed

subsection \<open>C4: what a payload that no path maps leaves behind\<close>

text \<open>
  C4, as amended. For every payload other than \<open>null\<close> and \<open>undefined\<close> on which none of
  the three tests holds, the handler sets the error to the fixed text of line 284, turns
  the debug view on, keeps the serialised agent result in \<^verbatim>\<open>rawResponse\<close>, and stores no
  analysis result (the one of the state before stays).
\<close>

theorem no_match_reported:
  assumes "success result" "\<not> nullish (response result)"
    "\<not> canonicalPred (response result)" "\<not> flattenedPred (response result)"
    "\<not> doubleNestedPred (response result)"
  shows "error (handleAnalyze now result st) = Some parseFailure \<and>
         showDebug (handleAnalyze now result st) \<and>
         rawResponse (handleAnalyze now result st) = Stringify result \<and>
         analysisResult (handleAnalyze now result st) = analysisResult st"
proof -
  have m: "mapResponse now (response result) = Inr (None, JNull)"
    using assms(2,3,4) by (rule mapResponse_no_match)
  show ?thesis
    by (simp add: handleAnalyze_no_match [OF assms(1) m])
qed

text \<open>The amended C4 at \<^verbatim>\<open>{foo: "bar"}\<close>, from the initial state.\<close>

theorem no_match_reported_witness:
  "success \<lparr>success = True, response = JObject [(''foo'', JString ''bar'')], agentError = JUndefined\<rparr> \<and>
   \<not> nullish (JObject [(''foo'', JString ''bar'')]) \<and>
   \<not> canonicalPred (JObject [(''foo'', JString ''bar'')]) \<and>
   \<not> flattenedPred (JObject [(''foo'', JString ''bar'')]) \<and>
   \<not> doubleNestedPred (JObject [(''foo'', JString ''bar'')]) \<and>
   error (handleAnalyze ''2024-01-01T00:00:00.000Z''
     \<lparr>success = True, response = JObject [(''foo'', JString ''bar'')], agentError = JUndefined\<rparr>
     initialState) = Some parseFailure \<and>
   showDebug (handleAnalyze ''2024-01-01T00:00:00.000Z''
     \<lparr>success = True, response = JObject [(''foo'', JString ''bar'')], agentError = JUndefined\<rparr>
     initialState) \<and>
   rawResponse (handleAnalyze ''2024-01-01T00:00:00.000Z''
     \<lparr>success = True, response = JObject [(''foo'', JString ''bar'')], agentError = JUndefined\<rparr>
     initialState) =
     Stringify \<lparr>success = True, response = JObject [(''foo'', JString ''bar'')], agentError = JUndefined\<rparr> \<and>
   analysisResult (handleAnalyze ''2024-01-01T00:00:00.000Z''
     \<lparr>success = True, response = JObject [(''foo'', JString ''bar'')], agentError = JUndefined\<rparr>
     initialState) = JNull"
proof -
  let ?r = "\<lparr>success = True, response = JObject [(''foo'', JString ''bar'')], agentError = JUndefined\<rparr>"
  have h1: "success ?r" by simp
  have h2: "\<not> nullish (response ?r)" by (simp add: nullish_def)
  have h3: "\<not> canonicalPred (response ?r)" by (simp add: canonicalPred_def)
  have h4: "\<not> flattenedPred (response ?r)" by (simp add: flattenedPred_def)
  have h5: "\<not> doubleNestedPred (response ?r)" by (simp add: doubleNestedPred_def)
  show ?thesis
    using no_match_reported [OF h1 h2 h3 h4 h5, of "''2024-01-01T00:00:00.000Z''" initialState]
      h2 h3 h4 h5
    by (simp add: initialState_def)
qed

text \<open>
  C4 as stated fails: the error is the same fixed text for \<^verbatim>\<open>{foo: "bar"}\<close> and for
  \<^verbatim>\<open>{baz: "bar"}\<close>; it names no attempted shape and lists no key of the payload.
\<close>

theorem no_match_error_has_no_keys:
  "error (handleAnalyze ''2024-01-01T00:00:00.000Z''
     \<lparr>success = True, response = JObject [(''foo'', JString ''bar'')], agentError = JUndefined\<rparr>
     initialState)
     = Some (Text ''Could not parse agent response. Enable debug view to see raw response.'') \<and>
   error (handleAnalyze ''2024-01-01T00:00:00.000Z''
     \<lparr>success = True, response = JObject [(''baz'', JString ''bar'')], agentError = JUndefined\<rparr>
     initialState)
     = Some (Text ''Could not parse agent response. Enable debug view to see raw response.'')"
proof -
  have m1: "mapResponse ''2024-01-01T00:00:00.000Z'' (JObject [(''foo'', JString ''bar'')]) = Inr (None, JNull)"
    by (rule mapResponse_no_match) (simp_all add: nullish_def canonicalPred_def flattenedPred_def)
  have m2: "mapResponse ''2024-01-01T00:00:00.000Z'' (JObject [(''baz'', JString ''bar'')]) = Inr (None, JNull)"
    by (rule mapResponse_no_match) (simp_all add: nullish_def canonicalPred_def flattenedPred_def)
  show ?thesis
    using m1 m2 by (simp add: handleAnalyze_no_match parseFailure_def)
qed

subsection \<open>C5: the canonical path is tried first\<close>

text \<open>
  C5. For every payload that satisfies both the test of the canonical path
  (\<^verbatim>\<open>result.data\<close>, tested for truthiness) and the test of the flattened path (a marker
  field directly on \<^verbatim>\<open>result\<close>), the canonical path is taken: the result is the payload
  itself, and the flattened mapper is not the one selected.
\<close>

theorem canonical_wins:
  assumes "canonicalPred normalized" "flattenedPred normalized"
  shows "mapResponse now normalized = Inr (Some Canonical, normalized) \<and>
         selectedCandidate now normalized \<noteq> Inr (Some Flattened)"
  using assms(1)
  by (simp add: mapResponse_canonical selectedCandidate_def)

text \<open>C5 at a payload with \<^verbatim>\<open>scene_description\<close> both under \<^verbatim>\<open>result.data\<close> and on \<^verbatim>\<open>result\<close>.\<close>

theorem canonical_wins_witness:
  "canonicalPred (JObject [(''result'', JObject
      [(''data'', JObject [(''scene_description'', JString ''inner'')]),
       (''scene_description'', JString ''outer'')])]) \<and>
   flattenedPred (JObject [(''result'', JObject
      [(''data'', JObject [(''scene_description'', JString ''inner'')]),
       (''scene_description'', JString ''outer'')])]) \<and>
   mapResponse ''2024-01-01T00:00:00.000Z'' (JObject [(''result'', JObject
      [(''data'', JObject [(''scene_description'', JString ''inner'')]),
       (''scene_description'', JString ''outer'')])])
   = Inr (Some Canonical, JObject [(''result'', JObject
      [(''data'', JObject [(''scene_description'', JString ''inner'')]),
       (''scene_description'', JString ''outer'')])])"
proof -
  let ?n = "JObject [(''result'', JObject
      [(''data'', JObject [(''scene_description'', JString ''inner'')]),
       (''scene_description'', JString ''outer'')])]"
  have h1: "canonicalPred ?n" by (simp add: canonicalPred_def)
  have h2: "flattenedPred ?n" by (simp add: flattenedPred_def)
  show ?thesis
    using canonical_wins [OF h1 h2, of "''2024-01-01T00:00:00.000Z''"] h1 h2
    by simp
qed

subsection \<open>C6: the summary of the flattened path\<close>

text \<open>
  C6, as amended. When the flattened path is taken, the summary of the result is
  \<^verbatim>\<open>result.summary\<close> when that is truthy; otherwise (absent, or falsy as the empty string
  is) it is the top-level \<^verbatim>\<open>message\<close> when that is truthy; otherwise it is the literal
  \<^verbatim>\<open>Image analysis completed\<close>. The payload of scenario B, with the field names of the
  code, \<^verbatim>\<open>{result: {scene_description: "D", objects_detected: []}}\<close>, gives that literal as
  summary, \<^verbatim>\<open>D\<close> as scene description and the synthesized metadata.
\<close>

theorem flattened_summary:
  "(\<not> canonicalPred normalized \<and> flattenedPred normalized \<longrightarrow>
     (\<exists>out. mapResponse now normalized = Inr (Some Flattened, out) \<and>
        optPath out [''result'', ''summary''] =
          (if truthy (optPath normalized [''result'', ''summary''])
           then optPath normalized [''result'', ''summary'']
           else if truthy (optPath normalized [''message''])
           then optPath normalized [''message'']
           else JString ''Image analysis completed''))) \<and>
   mapResponse now
     (JObject [(''result'', JObject
        [(''scene_description'', JString ''D''), (''objects_detected'', JArray [])])]) =
   Inr (Some Flattened, JObject
     [(''status'', JString ''success''),
      (''result'', JObject
        [(''summary'', JString ''Image analysis completed''),
         (''data'', JObject
           [(''scene_description'', JString ''D''),
            (''objects_detected'', JArray []),
            (''text_extracted'', JString ''''),
            (''color_analysis'', JObject [(''dominant_colors'', JArray [])]),
            (''mood_and_context'', JObject
              [(''emotional_tone'', JString ''''), (''suggested_use_cases'', JArray [])])])]),
      (''metadata'', JObject
        [(''agent_name'', JString ''Image Analyzer Agent''), (''timestamp'', JString now)])])"
proof -
  have general: "\<exists>out. mapResponse now normalized = Inr (Some Flattened, out) \<and>
        optPath out [''result'', ''summary''] =
          (if truthy (optPath normalized [''result'', ''summary''])
           then optPath normalized [''result'', ''summary'']
           else if truthy (optPath normalized [''message''])
           then optPath normalized [''message'']
           else JString ''Image analysis completed'')"
    if h: "\<not> canonicalPred normalized" "flattenedPred normalized"
  proof -
    from flattened_output [OF h, of now] obtain out where
      m: "mapResponse now normalized = Inr (Some Flattened, out)" and
      s: "optPath out [''result'', ''summary''] =
         orValue (optPath normalized [''result'', ''summary''])
           (orValue (optPath normalized [''message'']) (JString ''Image analysis completed''))"
      by blast
    from m s show ?thesis by (auto simp: orValue_def)
  qed
  let ?b = "JObject [(''result'', JObject
        [(''scene_description'', JString ''D''), (''objects_detected'', JArray [])])]"
  have b1: "\<not> canonicalPred ?b" by (simp add: canonicalPred_def)
  have b2: "flattenedPred ?b" by (simp add: flattenedPred_def)
  have b3: "\<not> nullish ?b" by (simp add: nullish_def)
  have b4: "\<not> nullish (optChain ?b ''result'')" by (simp add: nullish_def)
  have example: "mapResponse now ?b = Inr (Some Flattened, JObject
     [(''status'', JString ''success''),
      (''result'', JObject
        [(''summary'', JString ''Image analysis completed''),
         (''data'', JObject
           [(''scene_description'', JString ''D''),
            (''objects_detected'', JArray []),
            (''text_extracted'', JString ''''),
            (''color_analysis'', JObject [(''dominant_colors'', JArray [])]),
            (''mood_and_context'', JObject
              [(''emotional_tone'', JString ''''), (''suggested_use_cases'', JArray [])])])]),
      (''metadata'', JObject
        [(''agent_name'', JString ''Image Analyzer Agent''), (''timestamp'', JString now)])])"
    unfolding mapResponse_flattened [OF b1 b2] mapFlattened_eq [OF b3 b4]
    by (simp add: orValue_def fallbackMetadata_def)
  from general example show ?thesis by blast
qed

text \<open>The amended C6 at a payload with a top-level \<^verbatim>\<open>message\<close> and no \<^verbatim>\<open>result.summary\<close>.\<close>

theorem flattened_summary_witness:
  "\<not> canonicalPred (JObject [(''message'', JString ''M''),
       (''result'', JObject [(''scene_description'', JString ''D'')])]) \<and>
   flattenedPred (JObject [(''message'', JString ''M''),
       (''result'', JObject [(''scene_description'', JString ''D'')])]) \<and>
   (\<exists>out. mapResponse ''2024-01-01T00:00:00.000Z'' (JObject [(''message'', JString ''M''),
       (''result'', JObject [(''scene_description'', JString ''D'')])]) = Inr (Some Flattened, out) \<and>
      optPath out [''result'', ''summary''] = JString ''M'')"
proof -
  let ?n = "JObject [(''message'', JString ''M''),
       (''result'', JObject [(''scene_description'', JString ''D'')])]"
  have h1: "\<not> canonicalPred ?n" by (simp add: canonicalPred_def)
  have h2: "flattenedPred ?n" by (simp add: flattenedPred_def)
  show ?thesis
    using flattened_summary [of ?n "''2024-01-01T00:00:00.000Z''"] h1 h2
    by simp
qed

text \<open>
  C6 as stated fails where \<^verbatim>\<open>result.summary\<close> is present and empty: for
  \<^verbatim>\<open>{message: "M", result: {summary: "", scene_description: "D"}}\<close> the summary of the
  result is \<^verbatim>\<open>M\<close>, not the payload's empty summary (line 243 joins with \<^verbatim>\<open>||\<close>).
\<close>

theorem empty_summary_replaced:
  "optPath (JObject [(''message'', JString ''M''),
       (''result'', JObject [(''summary'', JString ''''), (''scene_description'', JString ''D'')])])
     [''result'', ''summary''] = JString '''' \<and>
   mapResponse ''2024-01-01T00:00:00.000Z''
     (JObject [(''message'', JString ''M''),
       (''result'', JObject [(''summary'', JString ''''), (''scene_description'', JString ''D'')])]) =
   Inr (Some Flattened, JObject
     [(''status'', JString ''success''),
      (''result'', JObject
        [(''summary'', JString ''M''),
         (''data'', JObject
           [(''scene_description'', JString ''D''),
            (''objects_detected'', JArray []),
            (''text_extracted'', JString ''''),
            (''color_analysis'', JObject [(''dominant_colors'', JArray [])]),
            (''mood_and_context'', JObject
              [(''emotional_tone'', JString ''''), (''suggested_use_cases'', JArray [])])])]),
      (''metadata'', JObject
        [(''agent_name'', JString ''Image Analyzer Agent''),
         (''timestamp'', JString ''2024-01-01T00:00:00.000Z'')])]) \<and>
   JString ''M'' \<noteq> JString ''''"
proof -
  let ?q = "JObject [(''message'', JString ''M''),
       (''result'', JObject [(''summary'', JString ''''), (''scene_description'', JString ''D'')])]"
  have q1: "\<not> canonicalPred ?q" by (simp add: canonicalPred_def)
  have q2: "flattenedPred ?q" by (simp add: flattenedPred_def)
  have q3: "\<not> nullish ?q" by (simp add: nullish_def)
  have q4: "\<not> nullish (optChain ?q ''result'')" by (simp add: nullish_def)
  have flat: "mapResponse ''2024-01-01T00:00:00.000Z'' ?q = Inr (Some Flattened, JObject
     [(''status'', JString ''success''),
      (''result'', JObject
        [(''summary'', JString ''M''),
         (''data'', JObject
           [(''scene_description'', JString ''D''),
            (''objects_detected'', JArray []),
            (''text_extracted'', JString ''''),
            (''color_analysis'', JObject [(''dominant_colors'', JArray [])]),
            (''mood_and_context'', JObject
              [(''emotional_tone'', JString ''''), (''suggested_use_cases'', JArray [])])])]),
      (''metadata'', JObject
        [(''agent_name'', JString ''Image Analyzer Agent''),
         (''timestamp'', JString ''2024-01-01T00:00:00.000Z'')])])"
    unfolding mapResponse_flattened [OF q1 q2] mapFlattened_eq [OF q3 q4]
    by (simp add: orValue_def fallbackMetadata_def)
  from flat show ?thesis by simp
qed

subsection \<open>C7: the double-nested path\<close>



subsection \<open>C8: the metadata of a result\<close>

text \<open>
  C8, as amended. When the flattened path is taken and the payload carries no metadata
  (none that is truthy), the metadata of the result is synthesized, with the agent name
  \<^verbatim>\<open>Image Analyzer Agent\<close> and the clock's value as timestamp; when the payload's metadata
  has an agent name and a timestamp, it is the metadata of the result; in both cases the
  metadata of the result has an agent name and a timestamp. When the canonical path is
  taken the result is the payload, unchanged.
\<close>

theorem flattened_metadata:
  "(canonicalPred normalized \<longrightarrow> mapResponse now normalized = Inr (Some Canonical, normalized)) \<and>
   (\<not> canonicalPred normalized \<and> flattenedPred normalized \<longrightarrow>
     (\<exists>out. mapResponse now normalized = Inr (Some Flattened, out) \<and>
        (\<not> truthy (optPath normalized [''metadata'']) \<longrightarrow>
           optPath out [''metadata''] = fallbackMetadata now) \<and>
        (\<not> nullish (optPath normalized [''metadata'', ''agent_name'']) \<and>
         \<not> nullish (optPath normalized [''metadata'', ''timestamp'']) \<longrightarrow>
           optPath out [''metadata''] = optPath normalized [''metadata'']) \<and>
        (\<not> truthy (optPath normalized [''metadata'']) \<or>
         \<not> nullish (optPath normalized [''metadata'', ''agent_name'']) \<and>
         \<not> nullish (optPath normalized [''metadata'', ''timestamp'']) \<longrightarrow>
           \<not> nullish (optPath out [''metadata'', ''agent_name'']) \<and>
           \<not> nullish (optPath out [''metadata'', ''timestamp''])))) \<and>
   optPath (fallbackMetadata now) [''agent_name''] = JString ''Image Analyzer Agent'' \<and>
   optPath (fallbackMetadata now) [''timestamp''] = JString now"
proof -
  have fb: "optPath (fallbackMetadata now) [''agent_name''] = JString ''Image Analyzer Agent'' \<and>
     optPath (fallbackMetadata now) [''timestamp''] = JString now"
    by (simp add: fallbackMetadata_def)
  have flat: "\<exists>out. mapResponse now normalized = Inr (Some Flattened, out) \<and>
        (\<not> truthy (optPath normalized [''metadata'']) \<longrightarrow>
           optPath out [''metadata''] = fallbackMetadata now) \<and>
        (\<not> nullish (optPath normalized [''metadata'', ''agent_name'']) \<and>
         \<not> nullish (optPath normalized [''metadata'', ''timestamp'']) \<longrightarrow>
           optPath out [''metadata''] = optPath normalized [''metadata'']) \<and>
        (\<not> truthy (optPath normalized [''metadata'']) \<or>
         \<not> nullish (optPath normalized [''metadata'', ''agent_name'']) \<and>
         \<not> nullish (optPath normalized [''metadata'', ''timestamp'']) \<longrightarrow>
           \<not> nullish (optPath out [''metadata'', ''agent_name'']) \<and>
           \<not> nullish (optPath out [''metadata'', ''timestamp'']))"
    if h: "\<not> canonicalPred normalized" "flattenedPred normalized"
  proof -
    from flattened_output [OF h, of now] obtain out where
      m: "mapResponse now normalized = Inr (Some Flattened, out)" and
      s: "optPath out [''metadata''] = orValue (optPath normalized [''metadata'']) (fallbackMetadata now)"
      by blast
    have k: "truthy (optPath normalized [''metadata''])"
      if "\<not> nullish (optPath normalized [''metadata'', ''agent_name''])"
      using that by (cases "optChain normalized ''metadata''") (simp_all add: nullish_def)
    have a: "optPath out [''metadata''] = fallbackMetadata now"
      if "\<not> truthy (optPath normalized [''metadata''])"
      using s that by (simp add: orValue_def)
    have b: "optPath out [''metadata''] = optPath normalized [''metadata'']"
      if "\<not> nullish (optPath normalized [''metadata'', ''agent_name''])"
      using s k [OF that] by (simp add: orValue_def)
    have c: "\<not> nullish (optPath out [''metadata'', ''agent_name'']) \<and>
           \<not> nullish (optPath out [''metadata'', ''timestamp''])"
      if "\<not> truthy (optPath normalized [''metadata'']) \<or>
         \<not> nullish (optPath normalized [''metadata'', ''agent_name'']) \<and>
         \<not> nullish (optPath normalized [''metadata'', ''timestamp''])"
    proof (cases "truthy (optPath normalized [''metadata''])")
      case False
      from a [OF False] have "optChain out ''metadata'' = fallbackMetadata now" by simp
      then show ?thesis by (simp add: fallbackMetadata_def nullish_def)
    next
      case True
      with that have p: "\<not> nullish (optPath normalized [''metadata'', ''agent_name''])"
        and q: "\<not> nullish (optPath normalized [''metadata'', ''timestamp''])" by blast+
      from b [OF p] have "optChain out ''metadata'' = optChain normalized ''metadata''" by simp
      with p q show ?thesis by simp
    qed
    from m a b c show ?thesis by blast
  qed
  from flat fb mapResponse_canonical [of normalized now] show ?thesis by blast
qed

text \<open>
  The amended C8 at \<^verbatim>\<open>{result: {scene_description: "D"}}\<close> without and with a top-level
  \<^verbatim>\<open>metadata\<close> object (flattened path) and at \<^verbatim>\<open>{result: {data: {scene_description: "D"}}}\<close>
  (canonical path).
\<close>

theorem flattened_metadata_witness:
  "\<not> canonicalPred (JObject [(''result'', JObject [(''scene_description'', JString ''D'')])]) \<and>
   flattenedPred (JObject [(''result'', JObject [(''scene_description'', JString ''D'')])]) \<and>
   \<not> truthy (optPath (JObject [(''result'', JObject [(''scene_description'', JString ''D'')])])
     [''metadata'']) \<and>
   (\<exists>out. mapResponse ''2024-01-01T00:00:00.000Z''
       (JObject [(''result'', JObject [(''scene_description'', JString ''D'')])])
       = Inr (Some Flattened, out) \<and>
      optPath out [''metadata''] = JObject [(''agent_name'', JString ''Image Analyzer Agent''),
         (''timestamp'', JString ''2024-01-01T00:00:00.000Z'')]) \<and>
   \<not> canonicalPred (JObject [(''metadata'', JObject [(''agent_name'', JString ''A''),
         (''timestamp'', JString ''2024-01-01T00:00:00Z'')]),
       (''result'', JObject [(''scene_description'', JString ''D'')])]) \<and>
   flattenedPred (JObject [(''metadata'', JObject [(''agent_name'', JString ''A''),
         (''timestamp'', JString ''2024-01-01T00:00:00Z'')]),
       (''result'', JObject [(''scene_description'', JString ''D'')])]) \<and>
   (\<exists>out. mapResponse ''2024-01-01T00:00:00.000Z''
       (JObject [(''metadata'', JObject [(''agent_name'', JString ''A''),
         (''timestamp'', JString ''2024-01-01T00:00:00Z'')]),
       (''result'', JObject [(''scene_description'', JString ''D'')])])
       = Inr (Some Flattened, out) \<and>
      optPath out [''metadata''] = JObject [(''agent_name'', JString ''A''),
         (''timestamp'', JString ''2024-01-01T00:00:00Z'')]) \<and>
   canonicalPred (JObject [(''result'', JObject [(''data'', JObject [(''scene_description'', JString ''D'')])])]) \<and>
   mapResponse ''2024-01-01T00:00:00.000Z''
     (JObject [(''result'', JObject [(''data'', JObject [(''scene_description'', JString ''D'')])])])
   = Inr (Some Canonical,
      JObject [(''result'', JObject [(''data'', JObject [(''scene_description'', JString ''D'')])])])"
proof -
  let ?n = "JObject [(''result'', JObject [(''scene_description'', JString ''D'')])]"
  let ?k = "JObject [(''metadata'', JObject [(''agent_name'', JString ''A''),
         (''timestamp'', JString ''2024-01-01T00:00:00Z'')]),
       (''result'', JObject [(''scene_description'', JString ''D'')])]"
  let ?c = "JObject [(''result'', JObject [(''data'', JObject [(''scene_description'', JString ''D'')])])]"
  have h1: "\<not> canonicalPred ?n" by (simp add: canonicalPred_def)
  have h2: "flattenedPred ?n" by (simp add: flattenedPred_def)
  have h3: "canonicalPred ?c" by (simp add: canonicalPred_def)
  have h4: "\<not> canonicalPred ?k" by (simp add: canonicalPred_def)
  have h5: "flattenedPred ?k" by (simp add: flattenedPred_def)
  show ?thesis
    using flattened_metadata [of ?n "''2024-01-01T00:00:00.000Z''"]
      flattened_metadata [of ?k "''2024-01-01T00:00:00.000Z''"]
      flattened_metadata [of ?c "''2024-01-01T00:00:00.000Z''"] h1 h2 h3 h4 h5
    by (auto simp add: fallbackMetadata_def nullish_def)
qed

text \<open>
  C8 as stated fails on both paths. On the canonical path, for
  \<^verbatim>\<open>{result: {data: {scene_description: "D"}}}\<close> the result is the payload, which has no
  metadata. On the flattened path line 259 keeps any truthy metadata: for
  \<^verbatim>\<open>{metadata: "m", result: {scene_description: "D"}}\<close> the metadata of the result is the
  string, with no agent name and no timestamp.
\<close>

theorem metadata_not_guaranteed:
  "mapResponse ''2024-01-01T00:00:00.000Z''
     (JObject [(''result'', JObject [(''data'', JObject [(''scene_description'', JString ''D'')])])])
   = Inr (Some Canonical,
      JObject [(''result'', JObject [(''data'', JObject [(''scene_description'', JString ''D'')])])]) \<and>
   optPath
     (JObject [(''result'', JObject [(''data'', JObject [(''scene_description'', JString ''D'')])])])
     [''metadata''] = JUndefined \<and>
   mapResponse ''2024-01-01T00:00:00.000Z''
     (JObject [(''metadata'', JString ''m''),
        (''result'', JObject [(''scene_description'', JString ''D'')])]) =
   Inr (Some Flattened, JObject
     [(''status'', JString ''success''),
      (''result'', JObject
        [(''summary'', JString ''Image analysis completed''),
         (''data'', JObject
           [(''scene_description'', JString ''D''),
            (''objects_detected'', JArray []),
            (''text_extracted'', JString ''''),
            (''color_analysis'', JObject [(''dominant_colors'', JArray [])]),
            (''mood_and_context'', JObject
              [(''emotional_tone'', JString ''''), (''suggested_use_cases'', JArray [])])])]),
      (''metadata'', JString ''m'')]) \<and>
   optPath (JString ''m'') [''agent_name''] = JUndefined \<and>
   optPath (JString ''m'') [''timestamp''] = JUndefined"
proof -
  let ?p = "JObject [(''result'', JObject [(''data'', JObject [(''scene_description'', JString ''D'')])])]"
  let ?q = "JObject [(''metadata'', JString ''m''),
        (''result'', JObject [(''scene_description'', JString ''D'')])]"
  have c: "canonicalPred ?p" by (simp add: canonicalPred_def)
  have q1: "\<not> canonicalPred ?q" by (simp add: canonicalPred_def)
  have q2: "flattenedPred ?q" by (simp add: flattenedPred_def)
  have q3: "\<not> nullish ?q" by (simp add: nullish_def)
  have q4: "\<not> nullish (optChain ?q ''result'')" by (simp add: nullish_def)
  have flat: "mapResponse ''2024-01-01T00:00:00.000Z'' ?q = Inr (Some Flattened, JObject
     [(''status'', JString ''success''),
      (''result'', JObject
        [(''summary'', JString ''Image analysis completed''),
         (''data'', JObject
           [(''scene_description'', JString ''D''),
            (''objects_detected'', JArray []),
            (''text_extracted'', JString ''''),
            (''color_analysis'', JObject [(''dominant_colors'', JArray [])]),
            (''mood_and_context'', JObject
              [(''emotional_tone'', JString ''''), (''suggested_use_cases'', JArray [])])])]),
      (''metadata'', JString ''m'')])"
    unfolding mapResponse_flattened [OF q1 q2] mapFlattened_eq [OF q3 q4]
    by (simp add: orValue_def fallbackMetadata_def)
  from c flat show ?thesis
    by (simp add: mapResponse_canonical)
qed

subsection \<open>C9: selection tests truthiness\<close>

text \<open>
  C9. The path taken depends on the truthiness of the fields of \<^verbatim>\<open>result\<close>, not on their
  presence: a payload whose \<^verbatim>\<open>result\<close> carries a field with a falsy value takes the same
  path as the payload without that field. The payloads \<^verbatim>\<open>{result: {data: null}}\<close>,
  \<^verbatim>\<open>{result: {data: 0, summary: "S"}}\<close> and \<^verbatim>\<open>{result: {scene_description: ""}}\<close> are
  mapped by no path.
\<close>

theorem selection_by_truthiness:
  "(map_of kvs k = Some v \<and> \<not> truthy v \<longrightarrow>
      selectedCandidate now (JObject ((''result'', JObject kvs) # others)) =
      selectedCandidate now (JObject ((''result'', JObject (filter (\<lambda>p. fst p \<noteq> k) kvs)) # others))) \<and>
   mapResponse now (JObject [(''result'', JObject [(''data'', JNull)])]) = Inr (None, JNull) \<and>
   mapResponse now (JObject [(''result'', JObject
      [(''data'', JNumber (Finite 0)), (''summary'', JString ''S'')])]) = Inr (None, JNull) \<and>
   mapResponse now (JObject [(''result'', JObject [(''scene_description'', JString '''')])])
     = Inr (None, JNull)"
proof -
  have general: "selectedCandidate now (JObject ((''result'', JObject kvs) # others)) =
      selectedCandidate now (JObject ((''result'', JObject (filter (\<lambda>p. fst p \<noteq> k) kvs)) # others))"
    if h: "map_of kvs k = Some v" "\<not> truthy v"
    by (simp add: selectedCandidate_eq nullish_def preds_drop_falsy [OF h])
  have e1: "mapResponse now (JObject [(''result'', JObject [(''data'', JNull)])]) = Inr (None, JNull)"
    by (rule mapResponse_no_match) (simp_all add: nullish_def canonicalPred_def flattenedPred_def)
  have e2: "mapResponse now (JObject [(''result'', JObject
      [(''data'', JNumber (Finite 0)), (''summary'', JString ''S'')])]) = Inr (None, JNull)"
    by (rule mapResponse_no_match) (simp_all add: nullish_def canonicalPred_def flattenedPred_def)
  have e3: "mapResponse now (JObject [(''result'', JObject [(''scene_description'', JString '''')])])
     = Inr (None, JNull)"
    by (rule mapResponse_no_match) (simp_all add: nullish_def canonicalPred_def flattenedPred_def)
  from general e1 e2 e3 show ?thesis by blast
qed

text \<open>
  C9 at a \<^verbatim>\<open>result\<close> with \<^verbatim>\<open>objects_detected: false\<close> and an empty \<^verbatim>\<open>mood_and_context\<close>
  object.
\<close>

theorem selection_by_truthiness_witness:
  "map_of [(''objects_detected'', JBool False), (''mood_and_context'', JObject [])]
     ''objects_detected'' = Some (JBool False) \<and>
   \<not> truthy (JBool False) \<and>
   selectedCandidate ''2024-01-01T00:00:00.000Z''
     (JObject [(''result'', JObject [(''objects_detected'', JBool False), (''mood_and_context'', JObject [])])]) =
   selectedCandidate ''2024-01-01T00:00:00.000Z''
     (JObject [(''result'', JObject [(''mood_and_context'', JObject [])])])"
  using selection_by_truthiness
    [of "[(''objects_detected'', JBool False), (''mood_and_context'', JObject [])]"
        "''objects_detected''" "JBool False" "''2024-01-01T00:00:00.000Z''" "[]"]
  by simp

subsection \<open>C10: extracted text alone selects no path\<close>

text \<open>
  C10. For every payload whose \<^verbatim>\<open>result\<close> is an object that has \<^verbatim>\<open>text_extracted\<close> but
  none of the four marker fields and no \<^verbatim>\<open>data\<close>, no path maps the payload: the handler
  reports the parse failure and stores no analysis result.
\<close>

theorem text_extracted_no_marker:
  assumes "success result" "optPath (response result) [''result''] = JObject kvs"
    "map_of kvs ''text_extracted'' = Some t"
    "map_of kvs ''scene_description'' = None" "map_of kvs ''objects_detected'' = None"
    "map_of kvs ''color_analysis'' = None" "map_of kvs ''mood_and_context'' = None"
    "map_of kvs ''data'' = None"
  shows "mapResponse now (response result) = Inr (None, JNull) \<and>
         error (handleAnalyze now result st) = Some parseFailure \<and>
         analysisResult (handleAnalyze now result st) = analysisResult st"
proof -
  let ?n = "response result"
  from assms(2) have nn: "\<not> nullish ?n"
    by (auto simp: nullish_def)
  from assms(2,8) have nc: "\<not> canonicalPred ?n"
    by (simp add: canonicalPred_def)
  from assms(2,4,5,6,7) have nf: "\<not> flattenedPred ?n"
    by (simp add: flattenedPred_def)
  have m: "mapResponse now ?n = Inr (None, JNull)"
    using nn nc nf by (rule mapResponse_no_match)
  show ?thesis
    using m by (simp add: handleAnalyze_no_match [OF assms(1) m])
qed

text \<open>C10 at \<^verbatim>\<open>{result: {text_extracted: "hello"}}\<close>, from the initial state.\<close>

theorem text_extracted_no_marker_witness:
  "mapResponse ''2024-01-01T00:00:00.000Z''
     (JObject [(''result'', JObject [(''text_extracted'', JString ''hello'')])]) = Inr (None, JNull) \<and>
   error (handleAnalyze ''2024-01-01T00:00:00.000Z''
     \<lparr>success = True,
      response = JObject [(''result'', JObject [(''text_extracted'', JString ''hello'')])],
      agentError = JUndefined\<rparr> initialState) = Some parseFailure \<and>
   analysisResult (handleAnalyze ''2024-01-01T00:00:00.000Z''
     \<lparr>success = True,
      response = JObject [(''result'', JObject [(''text_extracted'', JString ''hello'')])],
      agentError = JUndefined\<rparr> initialState) = JNull"
proof -
  let ?r = "\<lparr>success = True,
      response = JObject [(''result'', JObject [(''text_extracted'', JString ''hello'')])],
      agentError = JUndefined\<rparr>"
  let ?kvs = "[(''text_extracted'', JString ''hello'')]"
  have h1: "success ?r" by simp
  have h2: "optPath (response ?r) [''result''] = JObject ?kvs" by simp
  have h3: "map_of ?kvs ''text_extracted'' = Some (JString ''hello'')" by simp
  have h4: "map_of ?kvs ''scene_description'' = None" by simp
  have h5: "map_of ?kvs ''objects_detected'' = None" by simp
  have h6: "map_of ?kvs ''color_analysis'' = None" by simp
  have h7: "map_of ?kvs ''mood_and_context'' = None" by simp
  have h8: "map_of ?kvs ''data'' = None" by simp
  show ?thesis
    using text_extracted_no_marker [OF h1 h2 h3 h4 h5 h6 h7 h8,
        of "''2024-01-01T00:00:00.000Z''" initialState]
    by (simp add: initialState_def)
qed

end
